theory Spec2Isabelle
  imports Main "HOL-Library.Word" "HOL-Library.Sublist"
begin

unbundle bit_operations_syntax

text \<open>
  A shallow embedding of the TurboMIDI protocol engine of TurboMidi.hpp: the capability
  set, the command builders, the receive path with its frame handlers, the watchdog and
  the master's negotiation, over a platform with a transmit log, a clock and a receive
  queue. Bytes are \<open>8 word\<close>, millisecond counters and baud rates \<open>32 word\<close>, so
  that \<open>now - lastMessageTime_\<close> wraps as \<open>uint32_t\<close> does.
\<close>

section \<open>Constants and enumerations of TurboMidi.hpp\<close>

type_synonym u8 = "8 word"
type_synonym u32 = "32 word"

abbreviation (input) SYSEX_START :: u8 where "SYSEX_START \<equiv> 0xF0"
abbreviation (input) SYSEX_END :: u8 where "SYSEX_END \<equiv> 0xF7"
abbreviation (input) ACTIVE_SENSING :: u8 where "ACTIVE_SENSING \<equiv> 0xFE"

definition ELEKTRON_ID :: "u8 list" where
  "ELEKTRON_ID = [0x00, 0x20, 0x3C, 0x00, 0x00]"

text \<open>
  \<open>enum class CommandID : uint8_t\<close>. A command id is read off the wire with a
  \<open>static_cast\<close> from a byte, so every byte is a value of the type; the enumerators
  are names of nine of them.
\<close>

type_synonym CommandID = u8

abbreviation (input) SPEED_REQ :: CommandID where "SPEED_REQ \<equiv> 0x10"
abbreviation (input) SPEED_ANSWER :: CommandID where "SPEED_ANSWER \<equiv> 0x11"
abbreviation (input) SPEED_NEG :: CommandID where "SPEED_NEG \<equiv> 0x12"
abbreviation (input) SPEED_ACK :: CommandID where "SPEED_ACK \<equiv> 0x13"
abbreviation (input) SPEED_TEST :: CommandID where "SPEED_TEST \<equiv> 0x14"
abbreviation (input) SPEED_RESULT :: CommandID where "SPEED_RESULT \<equiv> 0x15"
abbreviation (input) SPEED_TEST2 :: CommandID where "SPEED_TEST2 \<equiv> 0x16"
abbreviation (input) SPEED_RESULT2 :: CommandID where "SPEED_RESULT2 \<equiv> 0x17"
abbreviation (input) SPEED_PUSH :: CommandID where "SPEED_PUSH \<equiv> 0x20"

text \<open>
  \<open>enum class SpeedMultiplier : uint8_t\<close>, likewise cast from wire bytes
  (\<open>static_cast<SpeedMultiplier>(m_incomingBuffer[7])\<close>): a byte, with eleven named
  values.
\<close>

type_synonym SpeedMultiplier = u8

abbreviation (input) SPEED_1X :: SpeedMultiplier where "SPEED_1X \<equiv> 1"
abbreviation (input) SPEED_2X :: SpeedMultiplier where "SPEED_2X \<equiv> 2"
abbreviation (input) SPEED_3_3X :: SpeedMultiplier where "SPEED_3_3X \<equiv> 3"
abbreviation (input) SPEED_4X :: SpeedMultiplier where "SPEED_4X \<equiv> 4"
abbreviation (input) SPEED_5X :: SpeedMultiplier where "SPEED_5X \<equiv> 5"
abbreviation (input) SPEED_6_6X :: SpeedMultiplier where "SPEED_6_6X \<equiv> 6"
abbreviation (input) SPEED_8X :: SpeedMultiplier where "SPEED_8X \<equiv> 7"
abbreviation (input) SPEED_10X :: SpeedMultiplier where "SPEED_10X \<equiv> 8"
abbreviation (input) SPEED_13_3X :: SpeedMultiplier where "SPEED_13_3X \<equiv> 9"
abbreviation (input) SPEED_16X :: SpeedMultiplier where "SPEED_16X \<equiv> 10"
abbreviation (input) SPEED_20X :: SpeedMultiplier where "SPEED_20X \<equiv> 11"

datatype DeviceRole = MASTER | SLAVE | ANY

datatype TestState = IDLE | WAITING_FOR_TEST | WAITING_FOR_TEST2

section \<open>SpeedConfig\<close>

record SpeedConfig =
  mask1 :: u8
  mask2 :: u8
  cert1 :: u8
  cert2 :: u8

text \<open>The default member initialisers: all four bytes 0.\<close>

definition SpeedConfig_init :: SpeedConfig where
  "SpeedConfig_init = \<lparr>mask1 = 0, mask2 = 0, cert1 = 0, cert2 = 0\<rparr>"

text \<open>\<open>mask1 |= (1 << n); if (certified) cert1 |= (1 << n);\<close>\<close>

definition set1 :: "nat \<Rightarrow> bool \<Rightarrow> SpeedConfig \<Rightarrow> SpeedConfig" where
  "set1 n certified c =
     c\<lparr>mask1 := mask1 c OR push_bit n 1,
       cert1 := (if certified then cert1 c OR push_bit n 1 else cert1 c)\<rparr>"

text \<open>\<open>mask2 |= (1 << n); if (certified) cert2 |= (1 << n);\<close>\<close>

definition set2 :: "nat \<Rightarrow> bool \<Rightarrow> SpeedConfig \<Rightarrow> SpeedConfig" where
  "set2 n certified c =
     c\<lparr>mask2 := mask2 c OR push_bit n 1,
       cert2 := (if certified then cert2 c OR push_bit n 1 else cert2 c)\<rparr>"

definition addSpeed :: "SpeedMultiplier \<Rightarrow> bool \<Rightarrow> SpeedConfig \<Rightarrow> SpeedConfig" where
  "addSpeed speed certified c =
     (if speed = SPEED_2X then set1 0 certified c
      else if speed = SPEED_3_3X then set1 1 certified c
      else if speed = SPEED_4X then set1 2 certified c
      else if speed = SPEED_5X then set1 3 certified c
      else if speed = SPEED_6_6X then set1 4 certified c
      else if speed = SPEED_8X then set1 5 certified c
      else if speed = SPEED_10X then set1 6 certified c
      else if speed = SPEED_13_3X then set2 0 certified c
      else if speed = SPEED_16X then set2 1 certified c
      else if speed = SPEED_20X then set2 2 certified c
      else c)"

text \<open>\<open>return mask & (1 << n);\<close> converted to \<open>bool\<close>: the bit is set.\<close>

definition hasSpeed :: "SpeedConfig \<Rightarrow> SpeedMultiplier \<Rightarrow> bool" where
  "hasSpeed c speed =
     (if speed = SPEED_2X then mask1 c AND push_bit 0 1 \<noteq> 0
      else if speed = SPEED_3_3X then mask1 c AND push_bit 1 1 \<noteq> 0
      else if speed = SPEED_4X then mask1 c AND push_bit 2 1 \<noteq> 0
      else if speed = SPEED_5X then mask1 c AND push_bit 3 1 \<noteq> 0
      else if speed = SPEED_6_6X then mask1 c AND push_bit 4 1 \<noteq> 0
      else if speed = SPEED_8X then mask1 c AND push_bit 5 1 \<noteq> 0
      else if speed = SPEED_10X then mask1 c AND push_bit 6 1 \<noteq> 0
      else if speed = SPEED_13_3X then mask2 c AND push_bit 0 1 \<noteq> 0
      else if speed = SPEED_16X then mask2 c AND push_bit 1 1 \<noteq> 0
      else if speed = SPEED_20X then mask2 c AND push_bit 2 1 \<noteq> 0
      else False)"

definition isCertified :: "SpeedConfig \<Rightarrow> SpeedMultiplier \<Rightarrow> bool" where
  "isCertified c speed =
     (if speed = SPEED_2X then cert1 c AND push_bit 0 1 \<noteq> 0
      else if speed = SPEED_3_3X then cert1 c AND push_bit 1 1 \<noteq> 0
      else if speed = SPEED_4X then cert1 c AND push_bit 2 1 \<noteq> 0
      else if speed = SPEED_5X then cert1 c AND push_bit 3 1 \<noteq> 0
      else if speed = SPEED_6_6X then cert1 c AND push_bit 4 1 \<noteq> 0
      else if speed = SPEED_8X then cert1 c AND push_bit 5 1 \<noteq> 0
      else if speed = SPEED_10X then cert1 c AND push_bit 6 1 \<noteq> 0
      else if speed = SPEED_13_3X then cert2 c AND push_bit 0 1 \<noteq> 0
      else if speed = SPEED_16X then cert2 c AND push_bit 1 1 \<noteq> 0
      else if speed = SPEED_20X then cert2 c AND push_bit 2 1 \<noteq> 0
      else False)"

section \<open>CommandBuilder\<close>

definition buildCommand :: "CommandID \<Rightarrow> u8 list \<Rightarrow> u8 list" where
  "buildCommand cmd payload = [SYSEX_START] @ ELEKTRON_ID @ [cmd] @ payload @ [SYSEX_END]"

definition buildSpeedReq :: "u8 list" where
  "buildSpeedReq = buildCommand SPEED_REQ []"

definition buildSpeedAnswer :: "SpeedConfig \<Rightarrow> u8 list" where
  "buildSpeedAnswer config =
     buildCommand SPEED_ANSWER [mask1 config, mask2 config, cert1 config, cert2 config]"

definition buildSpeedNeg :: "SpeedMultiplier \<Rightarrow> SpeedMultiplier \<Rightarrow> u8 list" where
  "buildSpeedNeg testSpeed targetSpeed = buildCommand SPEED_NEG [testSpeed, targetSpeed]"

definition buildSpeedAck :: "u8 list" where
  "buildSpeedAck = buildCommand SPEED_ACK []"

definition buildSpeedTest :: "u8 list" where
  "buildSpeedTest = buildCommand SPEED_TEST [0x55, 0x55, 0x55, 0x55, 0x00, 0x00, 0x00, 0x00]"

definition buildSpeedResult :: "u8 list" where
  "buildSpeedResult = buildCommand SPEED_RESULT [0x55, 0x55, 0x55, 0x55, 0x00, 0x00, 0x00, 0x00]"

definition buildSpeedTest2 :: "u8 list" where
  "buildSpeedTest2 = buildCommand SPEED_TEST2 []"

definition buildSpeedResult2 :: "u8 list" where
  "buildSpeedResult2 = buildCommand SPEED_RESULT2 []"

definition buildSpeedPush :: "SpeedMultiplier \<Rightarrow> u8 list" where
  "buildSpeedPush speed = buildCommand SPEED_PUSH [speed]"

section \<open>The platform\<close>

text \<open>
  \<open>IPlatform\<close> is an abstract interface. It is modelled after the \<open>MockPlatform\<close> of
  tests.cpp: the transmitted bytes are logged in \<open>txBuffer\<close>, the clock is the field
  \<open>currentTime\<close>, which only \<open>delayMs\<close> (and the host) advances, and \<open>setBaudRate\<close>
  records the rate in \<open>currentBaudRate\<close>. The receive queue is a list of arrivals: each
  call of \<open>receiveMidiData\<close> drains the oldest arrival, at most \<open>maxLength\<close> bytes of
  it, and what did not fit waits for the next call. With a single arrival this is the
  queue of \<open>MockPlatform\<close>; several arrivals stand for a peer that answers between two
  polls.
\<close>

record Platform =
  rxBuffer :: "u8 list list"
  txBuffer :: "u8 list"
  currentTime :: u32
  currentBaudRate :: u32

definition sendMidiData :: "u8 list \<Rightarrow> Platform \<Rightarrow> Platform" where
  "sendMidiData data p = p\<lparr>txBuffer := txBuffer p @ data\<rparr>"

definition receiveMidiData :: "nat \<Rightarrow> Platform \<Rightarrow> u8 list \<times> Platform" where
  "receiveMidiData maxLength p =
     (case rxBuffer p of
        [] \<Rightarrow> ([], p)
      | c # cs \<Rightarrow>
          (take maxLength c,
           p\<lparr>rxBuffer := (if length c \<le> maxLength then cs else drop maxLength c # cs)\<rparr>))"

definition getMillis :: "Platform \<Rightarrow> u32" where
  "getMillis p = currentTime p"

definition setBaudRate :: "u32 \<Rightarrow> Platform \<Rightarrow> Platform" where
  "setBaudRate baudRate p = p\<lparr>currentBaudRate := baudRate\<rparr>"

definition delayMs :: "u32 \<Rightarrow> Platform \<Rightarrow> Platform" where
  "delayMs ms p = p\<lparr>currentTime := currentTime p + ms\<rparr>"

definition Platform_init :: Platform where
  "Platform_init = \<lparr>rxBuffer = [], txBuffer = [], currentTime = 0, currentBaudRate = 31250\<rparr>"

section \<open>class TurboMIDI\<close>

text \<open>
  The object's fields (the source's \<open>role_\<close> is \<open>m_role\<close> here, and so on: a name
  cannot end in an underscore), the platform it points to, and the two callbacks. A
  \<open>std::function\<close> field is either empty or bound: \<open>onSpeedChanged\<close> and
  \<open>onSpeedRequest\<close> say which, and \<open>speedChangedCalls\<close> and \<open>speedRequestCalls\<close>
  log the invocations of a bound callback (the arguments, in order, and the count).
\<close>

record TurboMIDI =
  m_platform :: Platform
  m_role :: DeviceRole
  m_localConfig :: SpeedConfig
  m_currentSpeed :: SpeedMultiplier
  m_lastActiveSenseTime :: u32
  m_lastMessageTime :: u32
  m_incomingBuffer :: "u8 list"
  m_testState :: TestState
  m_pendingTestSpeed :: SpeedMultiplier
  m_pendingTargetSpeed :: SpeedMultiplier
  onSpeedChanged :: bool
  speedChangedCalls :: "SpeedMultiplier list"
  onSpeedRequest :: bool
  speedRequestCalls :: nat

text \<open>The constructor; both callbacks start empty.\<close>

definition TurboMIDI_new :: "Platform \<Rightarrow> DeviceRole \<Rightarrow> TurboMIDI" where
  "TurboMIDI_new platform0 role0 =
     \<lparr>m_platform = platform0, m_role = role0,
      m_localConfig = addSpeed SPEED_1X True SpeedConfig_init,
      m_currentSpeed = SPEED_1X,
      m_lastActiveSenseTime = 0, m_lastMessageTime = 0,
      m_incomingBuffer = [],
      m_testState = IDLE,
      m_pendingTestSpeed = SPEED_1X, m_pendingTargetSpeed = SPEED_1X,
      onSpeedChanged = False, speedChangedCalls = [],
      onSpeedRequest = False, speedRequestCalls = 0\<rparr>"

definition setSupportedSpeed :: "SpeedMultiplier \<Rightarrow> bool \<Rightarrow> TurboMIDI \<Rightarrow> TurboMIDI" where
  "setSupportedSpeed speed certified s =
     s\<lparr>m_localConfig := addSpeed speed certified (m_localConfig s)\<rparr>"

definition sendCommand :: "u8 list \<Rightarrow> TurboMIDI \<Rightarrow> TurboMIDI" where
  "sendCommand cmd s = s\<lparr>m_platform := sendMidiData cmd (m_platform s)\<rparr>"

definition getBaudRate :: "SpeedMultiplier \<Rightarrow> u32" where
  "getBaudRate speed =
     (if speed = SPEED_1X then 31250
      else if speed = SPEED_2X then 62500
      else if speed = SPEED_3_3X then 103125
      else if speed = SPEED_4X then 125000
      else if speed = SPEED_5X then 156250
      else if speed = SPEED_6_6X then 206250
      else if speed = SPEED_8X then 250000
      else if speed = SPEED_10X then 312500
      else if speed = SPEED_13_3X then 415625
      else if speed = SPEED_16X then 500000
      else if speed = SPEED_20X then 625000
      else 31250)"

definition setSpeed :: "SpeedMultiplier \<Rightarrow> TurboMIDI \<Rightarrow> TurboMIDI" where
  "setSpeed speed s =
     (let s1 = s\<lparr>m_currentSpeed := speed\<rparr>;
          baudRate = getBaudRate speed;
          s2 = s1\<lparr>m_platform := setBaudRate baudRate (m_platform s1)\<rparr>
      in if onSpeedChanged s2
         then s2\<lparr>speedChangedCalls := speedChangedCalls s2 @ [speed]\<rparr>
         else s2)"

definition sendActiveSense :: "TurboMIDI \<Rightarrow> TurboMIDI" where
  "sendActiveSense s =
     (if m_currentSpeed s \<noteq> SPEED_1X
      then (let s1 = s\<lparr>m_platform := sendMidiData [ACTIVE_SENSING] (m_platform s)\<rparr>
            in s1\<lparr>m_lastActiveSenseTime := getMillis (m_platform s1)\<rparr>)
      else s)"

definition checkTimeouts :: "TurboMIDI \<Rightarrow> TurboMIDI" where
  "checkTimeouts s =
     (let now = getMillis (m_platform s);
          s1 = (if m_currentSpeed s \<noteq> SPEED_1X \<and> now - m_lastMessageTime s > 300
                then setSpeed SPEED_1X s else s)
      in if m_currentSpeed s1 \<noteq> SPEED_1X \<and> now - m_lastActiveSenseTime s1 > 250
         then sendActiveSense s1 else s1)"

text \<open>The loop over \<open>ELEKTRON_ID\<close>: bytes 1 to 5 of the buffer against the five bytes.\<close>

definition validManufacturer :: "u8 list \<Rightarrow> bool" where
  "validManufacturer buf =
     list_all (\<lambda>i. buf ! (i + 1) = ELEKTRON_ID ! i) [0 ..< length ELEKTRON_ID]"

text \<open>The five handlers of the \<open>switch\<close> in \<open>processCompleteMessage\<close>, one per case.\<close>

definition handle_SPEED_REQ :: "TurboMIDI \<Rightarrow> TurboMIDI" where
  "handle_SPEED_REQ s =
     (if m_role s \<noteq> MASTER
      then (let s1 = sendCommand (buildSpeedAnswer (m_localConfig s)) s
            in if onSpeedRequest s1
               then s1\<lparr>speedRequestCalls := speedRequestCalls s1 + 1\<rparr>
               else s1)
      else s)"

definition handle_SPEED_NEG :: "TurboMIDI \<Rightarrow> TurboMIDI" where
  "handle_SPEED_NEG s =
     (if m_role s \<noteq> MASTER \<and> length (m_incomingBuffer s) \<ge> 10
      then (let testSpeed = m_incomingBuffer s ! 7;
                targetSpeed = m_incomingBuffer s ! 8
            in if hasSpeed (m_localConfig s) targetSpeed
               then (let s1 = sendCommand buildSpeedAck s
                     in if targetSpeed = SPEED_1X \<or>
                           (isCertified (m_localConfig s1) targetSpeed \<and> testSpeed = targetSpeed)
                        then setSpeed targetSpeed s1
                        else s1\<lparr>m_pendingTestSpeed := testSpeed,
                                m_pendingTargetSpeed := targetSpeed,
                                m_testState := WAITING_FOR_TEST\<rparr>)
               else s)
      else s)"

definition handle_SPEED_TEST :: "TurboMIDI \<Rightarrow> TurboMIDI" where
  "handle_SPEED_TEST s =
     (if m_role s \<noteq> MASTER \<and> m_testState s = WAITING_FOR_TEST \<and>
         length (m_incomingBuffer s) \<ge> 16
      then (let b = m_incomingBuffer s;
                testValid = (b ! 7 = 0x55 \<and> b ! 8 = 0x55 \<and> b ! 9 = 0x55 \<and> b ! 10 = 0x55 \<and>
                             b ! 11 = 0x00 \<and> b ! 12 = 0x00 \<and> b ! 13 = 0x00 \<and> b ! 14 = 0x00)
            in if testValid
               then (let s1 = setSpeed (m_pendingTestSpeed s) s;
                         s2 = sendCommand buildSpeedResult s1
                     in s2\<lparr>m_testState := WAITING_FOR_TEST2\<rparr>)
               else (let s1 = setSpeed SPEED_1X s
                     in s1\<lparr>m_testState := IDLE\<rparr>))
      else s)"

definition handle_SPEED_TEST2 :: "TurboMIDI \<Rightarrow> TurboMIDI" where
  "handle_SPEED_TEST2 s =
     (if m_role s \<noteq> MASTER \<and> m_testState s = WAITING_FOR_TEST2
      then (let s1 = sendCommand buildSpeedResult2 s;
                s2 = setSpeed (m_pendingTargetSpeed s1) s1
            in s2\<lparr>m_testState := IDLE\<rparr>)
      else s)"

definition handle_SPEED_PUSH :: "TurboMIDI \<Rightarrow> TurboMIDI" where
  "handle_SPEED_PUSH s =
     (if length (m_incomingBuffer s) \<ge> 9
      then (let speed = m_incomingBuffer s ! 7
            in if hasSpeed (m_localConfig s) speed then setSpeed speed s else s)
      else s)"

definition processCompleteMessage :: "TurboMIDI \<Rightarrow> TurboMIDI" where
  "processCompleteMessage s =
     (let b = m_incomingBuffer s in
      if length b < 8 then s
      else if \<not> (b ! 0 = SYSEX_START \<and> b ! (length b - 1) = SYSEX_END) then s
      else if \<not> validManufacturer b then s
      else (let cmd = b ! 6 in
            if cmd = SPEED_REQ then handle_SPEED_REQ s
            else if cmd = SPEED_NEG then handle_SPEED_NEG s
            else if cmd = SPEED_TEST then handle_SPEED_TEST s
            else if cmd = SPEED_TEST2 then handle_SPEED_TEST2 s
            else if cmd = SPEED_PUSH then handle_SPEED_PUSH s
            else s))"

definition processIncomingByte :: "u8 \<Rightarrow> TurboMIDI \<Rightarrow> TurboMIDI" where
  "processIncomingByte byte s =
     (let s1 = s\<lparr>m_lastMessageTime := getMillis (m_platform s)\<rparr>;
          s2 = (if byte = SYSEX_START then s1\<lparr>m_incomingBuffer := []\<rparr> else s1);
          s3 = s2\<lparr>m_incomingBuffer := m_incomingBuffer s2 @ [byte]\<rparr>;
          s4 = (if byte = SYSEX_END then processCompleteMessage s3 else s3)
      in if byte = ACTIVE_SENSING
         then s4\<lparr>m_lastMessageTime := getMillis (m_platform s4)\<rparr>
         else s4)"

text \<open>The \<open>for\<close> loop of \<open>handleIncomingData\<close> over the bytes read.\<close>

fun processBytes :: "u8 list \<Rightarrow> TurboMIDI \<Rightarrow> TurboMIDI" where
  "processBytes [] s = s"
| "processBytes (b # bs) s = processBytes bs (processIncomingByte b s)"

definition handleIncomingData :: "TurboMIDI \<Rightarrow> TurboMIDI" where
  "handleIncomingData s =
     (case receiveMidiData 256 (m_platform s) of
        (buffer, p) \<Rightarrow> checkTimeouts (processBytes buffer (s\<lparr>m_platform := p\<rparr>)))"

section \<open>The master side\<close>

text \<open>The loop of \<open>getParsedMessages\<close> over the bytes of \<open>incomingBuffer_\<close>.\<close>

fun parseLoop :: "u8 list \<Rightarrow> u8 list list \<Rightarrow> u8 list \<Rightarrow> u8 list list" where
  "parseLoop [] messages currentMsg = messages"
| "parseLoop (byte # rest) messages currentMsg =
     (let cur1 = (if byte = SYSEX_START then [] else currentMsg);
          cur2 = cur1 @ [byte]
      in parseLoop rest
           (if byte = SYSEX_END \<and> cur2 \<noteq> [] then messages @ [cur2] else messages) cur2)"

definition getParsedMessages :: "TurboMIDI \<Rightarrow> u8 list list" where
  "getParsedMessages s = parseLoop (m_incomingBuffer s) [] []"

text \<open>
  \<open>bool parseSpeedAnswer(SpeedConfig& config)\<close>: \<open>Some\<close> of the configuration written
  through the reference when it returns true, \<open>None\<close> when it returns false.
\<close>

definition parseSpeedAnswer :: "TurboMIDI \<Rightarrow> SpeedConfig option" where
  "parseSpeedAnswer s =
     (case List.find (\<lambda>msg. length msg \<ge> 12 \<and> msg ! 6 = SPEED_ANSWER) (getParsedMessages s) of
        None \<Rightarrow> None
      | Some msg \<Rightarrow>
          Some \<lparr>mask1 = msg ! 7, mask2 = msg ! 8, cert1 = msg ! 9, cert2 = msg ! 10\<rparr>)"

definition parseAck :: "TurboMIDI \<Rightarrow> bool" where
  "parseAck s = list_ex (\<lambda>msg. length msg \<ge> 8 \<and> msg ! 6 = SPEED_ACK) (getParsedMessages s)"

definition parseSpeedResult :: "TurboMIDI \<Rightarrow> bool" where
  "parseSpeedResult s =
     list_ex (\<lambda>msg. length msg \<ge> 16 \<and> msg ! 6 = SPEED_RESULT \<and>
                msg ! 7 = 0x55 \<and> msg ! 8 = 0x55 \<and> msg ! 9 = 0x55 \<and> msg ! 10 = 0x55 \<and>
                msg ! 11 = 0x00 \<and> msg ! 12 = 0x00 \<and> msg ! 13 = 0x00 \<and> msg ! 14 = 0x00)
       (getParsedMessages s)"

definition parseSpeedResult2 :: "TurboMIDI \<Rightarrow> bool" where
  "parseSpeedResult2 s =
     list_ex (\<lambda>msg. length msg \<ge> 8 \<and> msg ! 6 = SPEED_RESULT2) (getParsedMessages s)"

definition getNextHigherSpeed :: "SpeedMultiplier \<Rightarrow> SpeedMultiplier" where
  "getNextHigherSpeed speed = (if uint speed < 11 then speed + 1 else speed)"

text \<open>Nothing but \<open>delayMs\<close> moves the clock: the receive path leaves it alone.\<close>

lemma currentTime_setSpeed [simp]:
  "currentTime (m_platform (setSpeed v s)) = currentTime (m_platform s)"
  by (simp add: setSpeed_def Let_def setBaudRate_def)

lemma currentTime_sendCommand [simp]:
  "currentTime (m_platform (sendCommand c s)) = currentTime (m_platform s)"
  by (simp add: sendCommand_def sendMidiData_def)

lemma currentTime_sendActiveSense [simp]:
  "currentTime (m_platform (sendActiveSense s)) = currentTime (m_platform s)"
  by (simp add: sendActiveSense_def Let_def sendMidiData_def)

lemma currentTime_checkTimeouts [simp]:
  "currentTime (m_platform (checkTimeouts s)) = currentTime (m_platform s)"
  by (simp add: checkTimeouts_def Let_def)

lemma currentTime_processCompleteMessage [simp]:
  "currentTime (m_platform (processCompleteMessage s)) = currentTime (m_platform s)"
  by (simp add: processCompleteMessage_def handle_SPEED_REQ_def handle_SPEED_NEG_def
      handle_SPEED_TEST_def handle_SPEED_TEST2_def handle_SPEED_PUSH_def Let_def)

lemma currentTime_processIncomingByte [simp]:
  "currentTime (m_platform (processIncomingByte b s)) = currentTime (m_platform s)"
  by (simp add: processIncomingByte_def Let_def)

lemma currentTime_processBytes [simp]:
  "currentTime (m_platform (processBytes bs s)) = currentTime (m_platform s)"
  by (induction bs arbitrary: s) simp_all

lemma currentTime_receiveMidiData [simp]:
  "currentTime (snd (receiveMidiData n p)) = currentTime p"
  by (simp add: receiveMidiData_def split: list.split)

lemma currentTime_handleIncomingData [simp]:
  "currentTime (m_platform (handleIncomingData s)) = currentTime (m_platform s)"
  by (simp add: handleIncomingData_def split: prod.split)
     (metis currentTime_receiveMidiData snd_conv)

lemma unat_succ_below: "(x::u32) < y \<Longrightarrow> unat (x + 1) = Suc (unat x)"
  by unat_arith

text \<open>
  The four wait functions (\<open>waitForSpeedAnswer\<close>, \<open>waitForAck\<close>,
  \<open>waitForSpeedResult\<close>, \<open>waitForSpeedResult2\<close>) run the same loop and differ in
  the parser they call: \<open>while (getMillis() - startTime < timeoutMs)\<close>, pump the
  receive path, return on a successful parse, else \<open>delayMs(1)\<close>. On this platform
  every round advances the clock by 1, which bounds the number of rounds.
\<close>

function waitLoop ::
  "(TurboMIDI \<Rightarrow> 'a option) \<Rightarrow> u32 \<Rightarrow> u32 \<Rightarrow> TurboMIDI \<Rightarrow> 'a option \<times> TurboMIDI" where
  "waitLoop parse startTime timeoutMs s =
     (if getMillis (m_platform s) - startTime < timeoutMs
      then (let s1 = handleIncomingData s
            in case parse s1 of
                 Some r \<Rightarrow> (Some r, s1)
               | None \<Rightarrow>
                   waitLoop parse startTime timeoutMs
                     (s1\<lparr>m_platform := delayMs 1 (m_platform s1)\<rparr>))
      else (None, s))"
  by pat_completeness auto
termination
proof (relation "measure (\<lambda>(parse, startTime, timeoutMs, s).
         unat timeoutMs - unat (currentTime (m_platform s) - startTime))")
  show "wf (measure (\<lambda>(parse :: TurboMIDI \<Rightarrow> 'a option, startTime, timeoutMs, s).
         unat timeoutMs - unat (currentTime (m_platform s) - startTime)))"
    by simp
next
  fix parse :: "TurboMIDI \<Rightarrow> 'a option" and startTime timeoutMs :: u32 and s s1 :: TurboMIDI
  assume lt: "getMillis (m_platform s) - startTime < timeoutMs"
    and s1: "s1 = handleIncomingData s"
  let ?e = "currentTime (m_platform s) - startTime"
  have e1: "currentTime (m_platform s) + 1 - startTime = ?e + 1" by simp
  have "unat (currentTime (m_platform s) + 1 - startTime) = Suc (unat ?e)"
    unfolding e1 using lt unat_succ_below by (simp add: getMillis_def)
  moreover have "unat ?e < unat timeoutMs"
    using lt by (simp add: getMillis_def word_less_nat_alt)
  ultimately show "((parse, startTime, timeoutMs, s1\<lparr>m_platform := delayMs 1 (m_platform s1)\<rparr>),
           (parse, startTime, timeoutMs, s)) \<in> measure (\<lambda>(parse, startTime, timeoutMs, s).
         unat timeoutMs - unat (currentTime (m_platform s) - startTime))"
    using s1 by (simp add: delayMs_def)
qed

declare waitLoop.simps [simp del]


definition waitForSpeedAnswer :: "u32 \<Rightarrow> TurboMIDI \<Rightarrow> SpeedConfig option \<times> TurboMIDI" where
  "waitForSpeedAnswer timeoutMs s =
     waitLoop parseSpeedAnswer (getMillis (m_platform s)) timeoutMs s"

text \<open>A parser that returns \<open>bool\<close>, as the loop takes it.\<close>

definition found :: "(TurboMIDI \<Rightarrow> bool) \<Rightarrow> TurboMIDI \<Rightarrow> unit option" where
  "found parse s = (if parse s then Some () else None)"

definition waitForAck :: "u32 \<Rightarrow> TurboMIDI \<Rightarrow> bool \<times> TurboMIDI" where
  "waitForAck timeoutMs s =
     (case waitLoop (found parseAck) (getMillis (m_platform s)) timeoutMs s of
        (r, s') \<Rightarrow> (r \<noteq> None, s'))"

definition waitForSpeedResult :: "u32 \<Rightarrow> TurboMIDI \<Rightarrow> bool \<times> TurboMIDI" where
  "waitForSpeedResult timeoutMs s =
     (case waitLoop (found parseSpeedResult) (getMillis (m_platform s)) timeoutMs s of
        (r, s') \<Rightarrow> (r \<noteq> None, s'))"

definition waitForSpeedResult2 :: "u32 \<Rightarrow> TurboMIDI \<Rightarrow> bool \<times> TurboMIDI" where
  "waitForSpeedResult2 timeoutMs s =
     (case waitLoop (found parseSpeedResult2) (getMillis (m_platform s)) timeoutMs s of
        (r, s') \<Rightarrow> (r \<noteq> None, s'))"

definition performSpeedTest ::
  "SpeedMultiplier \<Rightarrow> SpeedMultiplier \<Rightarrow> TurboMIDI \<Rightarrow> bool \<times> TurboMIDI" where
  "performSpeedTest testSpeed targetSpeed s =
     (let s1 = s\<lparr>m_platform := sendMidiData (replicate 16 0) (m_platform s)\<rparr>;
          s2 = s1\<lparr>m_platform := delayMs 10 (m_platform s1)\<rparr>;
          s3 = setSpeed testSpeed s2;
          s4 = sendCommand buildSpeedTest s3
      in case waitForSpeedResult 30 s4 of
           (False, s5) \<Rightarrow> (False, setSpeed SPEED_1X s5)
         | (True, s5) \<Rightarrow>
             (let s6 = sendCommand buildSpeedTest2 s5
              in case waitForSpeedResult2 30 s6 of
                   (False, s7) \<Rightarrow> (False, setSpeed SPEED_1X s7)
                 | (True, s7) \<Rightarrow> (True, setSpeed targetSpeed s7)))"

definition negotiateSpeed :: "SpeedMultiplier \<Rightarrow> u32 \<Rightarrow> TurboMIDI \<Rightarrow> bool \<times> TurboMIDI" where
  "negotiateSpeed targetSpeed timeoutMs s =
     (if m_role s = SLAVE then (False, s)
      else
        (let s1 = sendCommand buildSpeedReq s
         in case waitForSpeedAnswer timeoutMs s1 of
              (None, s2) \<Rightarrow> (False, s2)
            | (Some remoteConfig, s2) \<Rightarrow>
                if \<not> hasSpeed remoteConfig targetSpeed then (False, s2)
                else
                  (let uncertified =
                         (\<not> isCertified remoteConfig targetSpeed \<and> targetSpeed \<noteq> SPEED_1X);
                       testSpeed =
                         (if uncertified then getNextHigherSpeed targetSpeed else targetSpeed)
                   in if uncertified \<and> testSpeed = targetSpeed then (False, s2)
                      else
                        (let s3 = sendCommand (buildSpeedNeg testSpeed targetSpeed) s2
                         in case waitForAck timeoutMs s3 of
                              (False, s4) \<Rightarrow> (False, s4)
                            | (True, s4) \<Rightarrow>
                                if targetSpeed \<noteq> SPEED_1X \<and> testSpeed \<noteq> targetSpeed
                                then (case performSpeedTest testSpeed targetSpeed s4 of
                                        (False, s5) \<Rightarrow> (False, s5)
                                      | (True, s5) \<Rightarrow> (True, setSpeed targetSpeed s5))
                                else (True, setSpeed targetSpeed s4)))))"

definition pushSpeed :: "SpeedMultiplier \<Rightarrow> TurboMIDI \<Rightarrow> TurboMIDI" where
  "pushSpeed speed s =
     (if m_role s = SLAVE then s
      else setSpeed speed (sendCommand (buildSpeedPush speed) s))"

text \<open>
  \<open>MockPlatform::injectMessage\<close> of tests.cpp pushes the bytes of a message onto the
  one receive queue of the mock: they join the bytes that wait there (the latest
  arrival), and on an empty queue they are the arrival that the next poll drains.
\<close>

definition injectMessage :: "u8 list \<Rightarrow> TurboMIDI \<Rightarrow> TurboMIDI" where
  "injectMessage message s =
     s\<lparr>m_platform := (m_platform s)
         \<lparr>rxBuffer :=
            (case rxBuffer (m_platform s) of
               [] \<Rightarrow> [message]
             | c # cs \<Rightarrow> butlast (c # cs) @ [last (c # cs) @ message])\<rparr>\<rparr>"

text \<open>
  The expected total length of a frame, by command id. This one follows the words of the
  specification (the table of section 4.3: payload length plus the eight bytes of
  \<open>F0\<close>, manufacturer prefix, command id and \<open>F7\<close>), not the source.
\<close>

definition spec_frame_length :: "CommandID \<Rightarrow> nat option" where
  "spec_frame_length cmd =
     (if cmd = SPEED_REQ then Some 8
      else if cmd = SPEED_ANSWER then Some 12
      else if cmd = SPEED_NEG then Some 10
      else if cmd = SPEED_ACK then Some 8
      else if cmd = SPEED_TEST then Some 16
      else if cmd = SPEED_RESULT then Some 16
      else if cmd = SPEED_TEST2 then Some 8
      else if cmd = SPEED_RESULT2 then Some 8
      else if cmd = SPEED_PUSH then Some 9
      else None)"

text \<open>\<open>platform.currentTime += ms\<close> in the tests: the host lets time pass.\<close>

definition advanceClock :: "u32 \<Rightarrow> TurboMIDI \<Rightarrow> TurboMIDI" where
  "advanceClock ms s = s\<lparr>m_platform := delayMs ms (m_platform s)\<rparr>"

section \<open>Scenarios\<close>

text \<open>A slave that supports 4x, uncertified, with the speed callback bound.\<close>

definition slave_4x :: TurboMIDI where
  "slave_4x =
     (setSupportedSpeed SPEED_4X False (TurboMIDI_new Platform_init SLAVE))
       \<lparr>onSpeedChanged := True\<rparr>"

text \<open>The same slave after \<open>F0 00 20 3C 00 00 20 04 F7\<close> and a tick, at time 0.\<close>

definition slave_pushed_4x :: TurboMIDI where
  "slave_pushed_4x =
     handleIncomingData
       (injectMessage [0xF0, 0x00, 0x20, 0x3C, 0x00, 0x00, 0x20, 0x04, 0xF7] slave_4x)"

text \<open>A remote that advertises 4x, uncertified, and nothing else.\<close>

definition remote_only_4x :: SpeedConfig where
  "remote_only_4x = \<lparr>mask1 = 0x04, mask2 = 0x00, cert1 = 0x00, cert2 = 0x00\<rparr>"

text \<open>A remote that advertises 20x, uncertified, and nothing else.\<close>

definition remote_only_20x :: SpeedConfig where
  "remote_only_20x = \<lparr>mask1 = 0x00, mask2 = 0x04, cert1 = 0x00, cert2 = 0x00\<rparr>"

text \<open>
  A master whose peer answers every step of the negotiation: SpeedAnswer with the four
  bytes of the remote, then SpeedAck, SpeedResult and SpeedResult2, each arriving before
  the poll that waits for it.
\<close>

definition master_with_peer :: "SpeedConfig \<Rightarrow> TurboMIDI" where
  "master_with_peer remote =
     TurboMIDI_new
       (Platform_init\<lparr>rxBuffer :=
          [[0xF0, 0x00, 0x20, 0x3C, 0x00, 0x00, 0x11,
            mask1 remote, mask2 remote, cert1 remote, cert2 remote, 0xF7],
           [0xF0, 0x00, 0x20, 0x3C, 0x00, 0x00, 0x13, 0xF7],
           [0xF0, 0x00, 0x20, 0x3C, 0x00, 0x00, 0x15,
            0x55, 0x55, 0x55, 0x55, 0x00, 0x00, 0x00, 0x00, 0xF7],
           [0xF0, 0x00, 0x20, 0x3C, 0x00, 0x00, 0x17, 0xF7]]\<rparr>)
       MASTER"

section \<open>Facts about the receive path\<close>

lemmas builder_defs =
  ELEKTRON_ID_def buildCommand_def buildSpeedReq_def buildSpeedAnswer_def buildSpeedNeg_def
  buildSpeedAck_def buildSpeedTest_def buildSpeedResult_def buildSpeedTest2_def
  buildSpeedResult2_def buildSpeedPush_def

lemmas handler_defs =
  handle_SPEED_REQ_def handle_SPEED_NEG_def handle_SPEED_TEST_def handle_SPEED_TEST2_def
  handle_SPEED_PUSH_def

lemma incomingBuffer_setSpeed [simp]:
  "m_incomingBuffer (setSpeed v s) = m_incomingBuffer s"
  by (simp add: setSpeed_def Let_def)

lemma lastMessageTime_setSpeed [simp]:
  "m_lastMessageTime (setSpeed v s) = m_lastMessageTime s"
  by (simp add: setSpeed_def Let_def)

lemma incomingBuffer_processCompleteMessage [simp]:
  "m_incomingBuffer (processCompleteMessage s) = m_incomingBuffer s"
  by (simp add: processCompleteMessage_def handler_defs sendCommand_def Let_def)

lemma lastMessageTime_processCompleteMessage [simp]:
  "m_lastMessageTime (processCompleteMessage s) = m_lastMessageTime s"
  by (simp add: processCompleteMessage_def handler_defs sendCommand_def Let_def)

lemma incomingBuffer_processIncomingByte:
  "m_incomingBuffer (processIncomingByte b s) =
     (if b = SYSEX_START then [b] else m_incomingBuffer s @ [b])"
  by (simp add: processIncomingByte_def Let_def)

lemma lastMessageTime_processIncomingByte:
  "m_lastMessageTime (processIncomingByte b s) = getMillis (m_platform s)"
  by (simp add: processIncomingByte_def Let_def getMillis_def)

lemma processIncomingByte_not_end:
  "b \<noteq> SYSEX_END \<Longrightarrow>
   processIncomingByte b s =
     s\<lparr>m_lastMessageTime := getMillis (m_platform s),
       m_incomingBuffer := (if b = SYSEX_START then [b] else m_incomingBuffer s @ [b])\<rparr>"
  by (simp add: processIncomingByte_def Let_def)

lemma incomingBuffer_processBytes:
  "SYSEX_START \<notin> set bs \<Longrightarrow>
   m_incomingBuffer (processBytes bs s) = m_incomingBuffer s @ bs"
  by (induction bs arbitrary: s) (simp_all add: incomingBuffer_processIncomingByte)

lemma incomingBuffer_checkTimeouts [simp]:
  "m_incomingBuffer (checkTimeouts s) = m_incomingBuffer s"
  by (simp add: checkTimeouts_def Let_def sendActiveSense_def)


subsection \<open>The transmit log only grows\<close>

lemma txBuffer_setSpeed [simp]:
  "txBuffer (m_platform (setSpeed v s)) = txBuffer (m_platform s)"
  by (simp add: setSpeed_def Let_def setBaudRate_def)

lemma txBuffer_sendCommand [simp]:
  "txBuffer (m_platform (sendCommand c s)) = txBuffer (m_platform s) @ c"
  by (simp add: sendCommand_def sendMidiData_def)

lemma tx_sendActiveSense:
  "prefix (txBuffer (m_platform s)) (txBuffer (m_platform (sendActiveSense s)))"
  by (simp add: sendActiveSense_def Let_def sendMidiData_def)

lemma tx_checkTimeouts:
  "prefix (txBuffer (m_platform s)) (txBuffer (m_platform (checkTimeouts s)))"
  using tx_sendActiveSense [of s] tx_sendActiveSense [of "setSpeed SPEED_1X s"]
  by (simp add: checkTimeouts_def Let_def)

lemma tx_processCompleteMessage:
  "prefix (txBuffer (m_platform s)) (txBuffer (m_platform (processCompleteMessage s)))"
  by (simp add: processCompleteMessage_def handler_defs Let_def)

lemma tx_processCompleteMessage_from:
  "txBuffer (m_platform s') = t \<Longrightarrow>
   prefix t (txBuffer (m_platform (processCompleteMessage s')))"
  using tx_processCompleteMessage [of s'] by simp

lemma tx_processIncomingByte:
  "prefix (txBuffer (m_platform s)) (txBuffer (m_platform (processIncomingByte b s)))"
  by (simp add: processIncomingByte_def Let_def tx_processCompleteMessage_from)

lemma tx_processBytes:
  "prefix (txBuffer (m_platform s)) (txBuffer (m_platform (processBytes bs s)))"
proof (induction bs arbitrary: s)
  case Nil
  show ?case by simp
next
  case (Cons b bs)
  from tx_processIncomingByte [of s b] Cons [of "processIncomingByte b s"]
  show ?case by (auto intro: prefix_order.trans)
qed

lemma txBuffer_receiveMidiData [simp]:
  "txBuffer (snd (receiveMidiData n p)) = txBuffer p"
  by (simp add: receiveMidiData_def split: list.split)

lemma tx_handleIncomingData:
  "prefix (txBuffer (m_platform s)) (txBuffer (m_platform (handleIncomingData s)))"
proof -
  obtain buffer p where r: "receiveMidiData 256 (m_platform s) = (buffer, p)"
    by (cases "receiveMidiData 256 (m_platform s)")
  then have p: "txBuffer p = txBuffer (m_platform s)"
    using txBuffer_receiveMidiData [of 256 "m_platform s"] by simp
  have "prefix (txBuffer p) (txBuffer (m_platform (processBytes buffer (s\<lparr>m_platform := p\<rparr>))))"
    using tx_processBytes [of "s\<lparr>m_platform := p\<rparr>" buffer] by simp
  then show ?thesis
    using tx_checkTimeouts [of "processBytes buffer (s\<lparr>m_platform := p\<rparr>)"] r p
    by (auto simp: handleIncomingData_def intro: prefix_order.trans)
qed

lemma tx_waitLoop:
  "prefix (txBuffer (m_platform s)) (txBuffer (m_platform (snd (waitLoop parse st tmo s))))"
proof (induction parse st tmo s rule: waitLoop.induct)
  case (1 parse st tmo s)
  show ?case
  proof (cases "getMillis (m_platform s) - st < tmo")
    case False
    then show ?thesis by (subst waitLoop.simps) simp
  next
    case True
    let ?s1 = "handleIncomingData s"
    show ?thesis
    proof (cases "parse ?s1")
      case (Some r)
      with True tx_handleIncomingData [of s] show ?thesis
        by (subst waitLoop.simps) (simp add: Let_def)
    next
      case None
      let ?s2 = "?s1\<lparr>m_platform := delayMs 1 (m_platform ?s1)\<rparr>"
      from "1.IH" [OF True refl None]
      have "prefix (txBuffer (m_platform ?s2)) (txBuffer (m_platform (snd (waitLoop parse st tmo ?s2))))" .
      moreover have "txBuffer (m_platform ?s2) = txBuffer (m_platform ?s1)"
        by (simp add: delayMs_def)
      ultimately have "prefix (txBuffer (m_platform s)) (txBuffer (m_platform (snd (waitLoop parse st tmo ?s2))))"
        using tx_handleIncomingData [of s] by (metis prefix_order.trans)
      with True None show ?thesis
        by (subst waitLoop.simps) (simp add: Let_def)
    qed
  qed
qed

lemma tx_waitForAck:
  "prefix (txBuffer (m_platform s)) (txBuffer (m_platform (snd (waitForAck tmo s))))"
  using tx_waitLoop [of s "found parseAck" "getMillis (m_platform s)" tmo]
  by (auto simp: waitForAck_def split: prod.split)

lemma tx_waitForSpeedResult:
  "prefix (txBuffer (m_platform s)) (txBuffer (m_platform (snd (waitForSpeedResult tmo s))))"
  using tx_waitLoop [of s "found parseSpeedResult" "getMillis (m_platform s)" tmo]
  by (auto simp: waitForSpeedResult_def split: prod.split)

lemma tx_waitForSpeedResult2:
  "prefix (txBuffer (m_platform s)) (txBuffer (m_platform (snd (waitForSpeedResult2 tmo s))))"
  using tx_waitLoop [of s "found parseSpeedResult2" "getMillis (m_platform s)" tmo]
  by (auto simp: waitForSpeedResult2_def split: prod.split)

lemma prefix_append_left: "prefix (xs @ ys) zs \<Longrightarrow> prefix xs zs"
  by (metis append_prefixD)

lemma tx_performSpeedTest:
  "prefix (txBuffer (m_platform s)) (txBuffer (m_platform (snd (performSpeedTest a b s))))"
proof -
  let ?s4 = "sendCommand buildSpeedTest (setSpeed a
      (s\<lparr>m_platform := delayMs 10 (sendMidiData (replicate 16 0) (m_platform s))\<rparr>))"
  have t4: "prefix (txBuffer (m_platform s)) (txBuffer (m_platform ?s4))"
    by (simp add: delayMs_def sendMidiData_def)
  obtain r s5 where w1: "waitForSpeedResult 30 ?s4 = (r, s5)"
    by (cases "waitForSpeedResult 30 ?s4")
  have t5: "prefix (txBuffer (m_platform s)) (txBuffer (m_platform s5))"
    using tx_waitForSpeedResult [of ?s4 30] t4 w1 by (metis prefix_order.trans snd_conv)
  obtain r2 s7 where w2: "waitForSpeedResult2 30 (sendCommand buildSpeedTest2 s5) = (r2, s7)"
    by (cases "waitForSpeedResult2 30 (sendCommand buildSpeedTest2 s5)")
  have "prefix (txBuffer (m_platform s5) @ buildSpeedTest2) (txBuffer (m_platform s7))"
    using tx_waitForSpeedResult2 [of "sendCommand buildSpeedTest2 s5" 30] w2 by simp
  then have "prefix (txBuffer (m_platform s5)) (txBuffer (m_platform s7))"
    by (rule prefix_append_left)
  with t5 have t7: "prefix (txBuffer (m_platform s)) (txBuffer (m_platform s7))"
    by (metis prefix_order.trans)
  show ?thesis
    using w1 w2 t5 t7 by (simp add: performSpeedTest_def Let_def split: bool.split)
qed



subsection \<open>What a handler needs to change the state\<close>

lemma validManufacturer_prefix:
  "8 \<le> length b \<Longrightarrow> validManufacturer b \<Longrightarrow> take 5 (drop 1 b) = ELEKTRON_ID"
  by (simp add: validManufacturer_def ELEKTRON_ID_def upt_rec list_eq_iff_nth_eq
      less_Suc_eq numeral_eq_Suc)

lemma handle_SPEED_NEG_changes: "handle_SPEED_NEG s \<noteq> s \<Longrightarrow> 10 \<le> length (m_incomingBuffer s)"
  by (auto simp: handle_SPEED_NEG_def split: if_splits)

lemma handle_SPEED_TEST_changes: "handle_SPEED_TEST s \<noteq> s \<Longrightarrow> 16 \<le> length (m_incomingBuffer s)"
  by (auto simp: handle_SPEED_TEST_def split: if_splits)

lemma handle_SPEED_PUSH_changes: "handle_SPEED_PUSH s \<noteq> s \<Longrightarrow> 9 \<le> length (m_incomingBuffer s)"
  by (auto simp: handle_SPEED_PUSH_def split: if_splits)


subsection \<open>The master's choice of the test speed\<close>

lemma hasSpeed_range:
  "hasSpeed c t \<Longrightarrow> t \<in> {2, 3, 4, 5, 6, 7, 8, 9, 10, 11}"
  by (simp add: hasSpeed_def split: if_splits)

lemma getNextHigherSpeed_below_top:
  "t \<in> {2, 3, 4, 5, 6, 7, 8, 9, 10} \<Longrightarrow>
   getNextHigherSpeed t = t + 1 \<and> getNextHigherSpeed t \<noteq> t"
  by (auto simp: getNextHigherSpeed_def)


subsection \<open>Parsing a SpeedAnswer frame\<close>

lemma parseSpeedAnswer_frame:
  "m1 \<noteq> SYSEX_START \<Longrightarrow> m2 \<noteq> SYSEX_START \<Longrightarrow> c1 \<noteq> SYSEX_START \<Longrightarrow>
   c2 \<noteq> SYSEX_START \<Longrightarrow>
   m_incomingBuffer s =
     buildSpeedAnswer \<lparr>mask1 = m1, mask2 = m2, cert1 = c1, cert2 = c2\<rparr> \<Longrightarrow>
   parseSpeedAnswer s = Some \<lparr>mask1 = m1, mask2 = m2, cert1 = c1, cert2 = c2\<rparr>"
  by (simp add: parseSpeedAnswer_def getParsedMessages_def builder_defs Let_def)

lemma incomingBuffer_frame:
  "SYSEX_START \<notin> set rest \<Longrightarrow>
   m_incomingBuffer (processBytes (SYSEX_START # rest) s) = SYSEX_START # rest"
  by (simp add: incomingBuffer_processBytes incomingBuffer_processIncomingByte)

section \<open>The capability queries at 1x\<close>

text \<open>
  C1. The claim: \<open>has(1x)\<close> and \<open>is_certified(1x)\<close> are true of every capability set.
  In the source both queries fall into the \<open>default\<close> branch at \<open>SPEED_1X\<close> and
  return false, for every configuration; \<open>addSpeed(SPEED_1X, true)\<close>, which the
  constructor calls under the comment "Initialize with only 1x speed supported by
  default", changes nothing. So the queries are false at 1x on every set, and on the
  local configuration of every freshly constructed engine.
\<close>

theorem hasSpeed_isCertified_1x_false:
  "hasSpeed c SPEED_1X = False \<and> isCertified c SPEED_1X = False \<and>
   addSpeed SPEED_1X True c = c \<and>
   hasSpeed (m_localConfig (TurboMIDI_new p r)) SPEED_1X = False \<and>
   isCertified (m_localConfig (TurboMIDI_new p r)) SPEED_1X = False"
  by (simp add: hasSpeed_def isCertified_def addSpeed_def TurboMIDI_new_def)

section \<open>SpeedPush of 1x\<close>

text \<open>
  C2. The claim: an engine that receives a well-formed SpeedPush with speed id 1 commits
  to 1x. In the source the handler commits only when \<open>localConfig_.hasSpeed(speed)\<close>,
  which is false at 1x: the slave that supports 4x and was pushed to 4x stays at 4x, at
  125000 baud, when \<open>F0 00 20 3C 00 00 20 01 F7\<close> arrives, and its callback is not
  invoked again.
\<close>

theorem push_1x_is_ignored:
  "m_currentSpeed slave_pushed_4x = SPEED_4X \<and>
   currentBaudRate (m_platform slave_pushed_4x) = 125000 \<and>
   m_currentSpeed
     (handleIncomingData
        (injectMessage [0xF0, 0x00, 0x20, 0x3C, 0x00, 0x00, 0x20, 0x01, 0xF7]
           slave_pushed_4x)) = SPEED_4X \<and>
   currentBaudRate (m_platform
     (handleIncomingData
        (injectMessage [0xF0, 0x00, 0x20, 0x3C, 0x00, 0x00, 0x20, 0x01, 0xF7]
           slave_pushed_4x))) = 125000 \<and>
   speedChangedCalls
     (handleIncomingData
        (injectMessage [0xF0, 0x00, 0x20, 0x3C, 0x00, 0x00, 0x20, 0x01, 0xF7]
           slave_pushed_4x)) = [SPEED_4X]"
  by code_simp

section \<open>Which frames are accepted\<close>

text \<open>
  C3, as amended. The claim asks for the exact length of each command; the source
  checks a lower bound only (\<open>size() < 8\<close>, \<open>>= 10\<close>, \<open>>= 16\<close>, \<open>>= 9\<close>). What
  holds: \<open>processCompleteMessage\<close> changes the state only if the first byte of the
  buffer is \<open>F0\<close>, the last is \<open>F7\<close>, bytes 1 to 5 are the manufacturer prefix, byte
  6 is a command id of the table, and the buffer is at least as long as the table says
  for that command. A buffer that fails one of these, a shorter frame in particular,
  leaves the state as it is.
\<close>

theorem accepted_frame_shape:
  assumes "processCompleteMessage s \<noteq> s"
  shows "m_incomingBuffer s ! 0 = SYSEX_START \<and>
         last (m_incomingBuffer s) = SYSEX_END \<and>
         take 5 (drop 1 (m_incomingBuffer s)) = ELEKTRON_ID \<and>
         (\<exists>n. spec_frame_length (m_incomingBuffer s ! 6) = Some n \<and>
              n \<le> length (m_incomingBuffer s))"
proof -
  let ?b = "m_incomingBuffer s"
  from assms have len: "8 \<le> length ?b"
    by (auto simp: processCompleteMessage_def Let_def split: if_splits)
  from assms have hdr: "?b ! 0 = SYSEX_START \<and> ?b ! (length ?b - 1) = SYSEX_END"
    by (auto simp: processCompleteMessage_def Let_def split: if_splits)
  from assms have man: "validManufacturer ?b"
    by (auto simp: processCompleteMessage_def Let_def split: if_splits)
  from len have ne: "?b \<noteq> []" by auto
  have l: "last ?b = SYSEX_END"
    using hdr ne by (simp add: last_conv_nth)
  from assms len hdr man have disp:
    "(?b ! 6 = SPEED_REQ \<and> handle_SPEED_REQ s \<noteq> s) \<or>
     (?b ! 6 = SPEED_NEG \<and> handle_SPEED_NEG s \<noteq> s) \<or>
     (?b ! 6 = SPEED_TEST \<and> handle_SPEED_TEST s \<noteq> s) \<or>
     (?b ! 6 = SPEED_TEST2 \<and> handle_SPEED_TEST2 s \<noteq> s) \<or>
     (?b ! 6 = SPEED_PUSH \<and> handle_SPEED_PUSH s \<noteq> s)"
    by (simp add: processCompleteMessage_def Let_def split: if_splits)
  then have "\<exists>n. spec_frame_length (?b ! 6) = Some n \<and> n \<le> length ?b"
    using len handle_SPEED_NEG_changes [of s] handle_SPEED_TEST_changes [of s]
      handle_SPEED_PUSH_changes [of s]
    by (auto simp: spec_frame_length_def)
  with hdr l validManufacturer_prefix [OF len man] show ?thesis by simp
qed


theorem accepted_frame_shape_witness:
  "processCompleteMessage (slave_4x\<lparr>m_incomingBuffer := [0xF0, 0x00, 0x20, 0x3C, 0x00, 0x00, 0x20, 0x04, 0xF7]\<rparr>) \<noteq>
     slave_4x\<lparr>m_incomingBuffer := [0xF0, 0x00, 0x20, 0x3C, 0x00, 0x00, 0x20, 0x04, 0xF7]\<rparr> \<and>
   [0xF0, 0x00, 0x20, 0x3C, 0x00, 0x00, 0x20, 0x04, 0xF7] ! 0 = SYSEX_START \<and> last [0xF0, 0x00, 0x20, 0x3C, 0x00, 0x00, 0x20, 0x04, 0xF7] = SYSEX_END \<and>
   take 5 (drop 1 [0xF0, 0x00, 0x20, 0x3C, 0x00, 0x00, 0x20, 0x04, 0xF7]) = ELEKTRON_ID \<and>
   spec_frame_length ([0xF0, 0x00, 0x20, 0x3C, 0x00, 0x00, 0x20, 0x04, 0xF7] ! 6) = Some 9"
proof -
  let ?s = "slave_4x\<lparr>m_incomingBuffer := [0xF0, 0x00, 0x20, 0x3C, 0x00, 0x00, 0x20, 0x04, 0xF7]\<rparr>"
  have "m_currentSpeed (processCompleteMessage ?s) = SPEED_4X" by code_simp
  moreover have "m_currentSpeed ?s = SPEED_1X" by code_simp
  ultimately have ne: "processCompleteMessage ?s \<noteq> ?s" by auto
  from accepted_frame_shape [OF ne] ne show ?thesis
    by (simp add: spec_frame_length_def)
qed

text \<open>
  The claim itself fails on a longer frame: SpeedPush with one byte too many, ten bytes
  in all, is accepted, and the slave commits to 4x.
\<close>

theorem longer_frame_is_accepted:
  "length [0xF0, 0x00, 0x20, 0x3C, 0x00, 0x00, 0x20, 0x04, 0x00, 0xF7 :: u8] = 10 \<and>
   spec_frame_length SPEED_PUSH = Some 9 \<and>
   m_currentSpeed slave_4x = SPEED_1X \<and>
   m_currentSpeed
     (handleIncomingData
        (injectMessage [0xF0, 0x00, 0x20, 0x3C, 0x00, 0x00, 0x20, 0x04, 0x00, 0xF7]
           slave_4x)) = SPEED_4X \<and>
   currentBaudRate (m_platform
     (handleIncomingData
        (injectMessage [0xF0, 0x00, 0x20, 0x3C, 0x00, 0x00, 0x20, 0x04, 0x00, 0xF7]
           slave_4x))) = 125000"
  by code_simp

section \<open>The receive buffer has no cap\<close>

text \<open>
  C4, as amended. The claim gives \<open>rx_buffer\<close> a cap of 256 bytes; \<open>incomingBuffer_\<close>
  is a \<open>std::vector\<close> that \<open>processIncomingByte\<close> appends to without any test of its
  size. What holds: every byte is appended, only an \<open>F0\<close> resets the buffer (to that
  one byte), and a stream of bytes without \<open>F0\<close> makes the buffer longer by its own
  length, whatever that is.
\<close>

theorem incomingBuffer_grows:
  "m_incomingBuffer (processIncomingByte b s) =
     (if b = SYSEX_START then [b] else m_incomingBuffer s @ [b]) \<and>
   (SYSEX_START \<notin> set bs \<longrightarrow>
      m_incomingBuffer (processBytes bs s) = m_incomingBuffer s @ bs \<and>
      length (m_incomingBuffer (processBytes bs s)) = length (m_incomingBuffer s) + length bs)"
  by (simp add: incomingBuffer_processIncomingByte incomingBuffer_processBytes)

theorem incomingBuffer_grows_witness:
  "SYSEX_START \<notin> set [0x01, 0x02, 0xF7 :: u8] \<and>
   m_incomingBuffer (processBytes [0x01, 0x02, 0xF7] slave_pushed_4x) =
     m_incomingBuffer slave_pushed_4x @ [0x01, 0x02, 0xF7] \<and>
   length (m_incomingBuffer (processBytes [0x01, 0x02, 0xF7] slave_pushed_4x)) =
     length (m_incomingBuffer slave_pushed_4x) + 3"
  using incomingBuffer_grows [of 0 slave_pushed_4x "[0x01, 0x02, 0xF7]"]
  by simp

text \<open>
  The claim itself fails on 257 bytes that hold neither \<open>F0\<close> nor \<open>F7\<close>: two ticks
  drain them (256 and 1), and the buffer is 257 bytes long.
\<close>

theorem incomingBuffer_exceeds_256:
  "length (m_incomingBuffer
     (handleIncomingData (handleIncomingData
        (TurboMIDI_new (Platform_init\<lparr>rxBuffer := [replicate 257 0x00]\<rparr>) SLAVE)))) = 257 \<and>
   rxBuffer (m_platform
     (handleIncomingData (handleIncomingData
        (TurboMIDI_new (Platform_init\<lparr>rxBuffer := [replicate 257 0x00]\<rparr>) SLAVE)))) = []"
  by code_simp

section \<open>Bytes outside a frame\<close>

text \<open>
  C5, as amended. The claim has bytes without a prior \<open>F0\<close> ignored; the source keeps
  no record of being inside a frame. What holds: every received byte, whether or not an
  \<open>F0\<close> came before it, refreshes \<open>lastMessageTime_\<close> and is appended to the buffer
  (an \<open>F0\<close> clears the buffer first); a byte other than \<open>F7\<close> changes nothing else,
  so it calls no command handler.
\<close>

theorem every_byte_is_recorded:
  "m_incomingBuffer (processIncomingByte b s) =
     (if b = SYSEX_START then [b] else m_incomingBuffer s @ [b]) \<and>
   m_lastMessageTime (processIncomingByte b s) = getMillis (m_platform s) \<and>
   (b \<noteq> SYSEX_END \<longrightarrow>
      processIncomingByte b s =
        s\<lparr>m_lastMessageTime := getMillis (m_platform s),
          m_incomingBuffer := (if b = SYSEX_START then [b] else m_incomingBuffer s @ [b])\<rparr>)"
  using processIncomingByte_not_end [of b s]
  by (simp add: incomingBuffer_processIncomingByte lastMessageTime_processIncomingByte)

theorem every_byte_is_recorded_witness:
  "(0x42 :: u8) \<noteq> SYSEX_END \<and>
   processIncomingByte 0x42 (advanceClock 5 slave_4x) =
     (advanceClock 5 slave_4x)\<lparr>m_lastMessageTime := 5, m_incomingBuffer := [0x42]\<rparr>"
proof -
  have t: "getMillis (m_platform (advanceClock 5 slave_4x)) = 5" by code_simp
  have b: "m_incomingBuffer (advanceClock 5 slave_4x) = []" by code_simp
  from every_byte_is_recorded [of "0x42" "advanceClock 5 slave_4x"] t b show ?thesis
    by simp
qed

text \<open>
  The claim itself fails twice. On an engine that has never seen an \<open>F0\<close>, at time 5,
  the byte \<open>42\<close> is appended to the buffer and refreshes \<open>lastMessageTime_\<close>. And
  after a complete SpeedRequest frame has been answered, a lone \<open>F7\<close> with no \<open>F0\<close>
  before it runs the handler again: the slave transmits a second SpeedAnswer.
\<close>

theorem stray_bytes_are_not_ignored:
  "m_incomingBuffer (advanceClock 5 slave_4x) = [] \<and>
   m_lastMessageTime (advanceClock 5 slave_4x) = 0 \<and>
   m_incomingBuffer (processIncomingByte 0x42 (advanceClock 5 slave_4x)) = [0x42] \<and>
   m_lastMessageTime (processIncomingByte 0x42 (advanceClock 5 slave_4x)) = 5 \<and>
   txBuffer (m_platform
     (processBytes [0xF0, 0x00, 0x20, 0x3C, 0x00, 0x00, 0x10, 0xF7] slave_4x)) =
     [0xF0, 0x00, 0x20, 0x3C, 0x00, 0x00, 0x11, 0x04, 0x00, 0x00, 0x00, 0xF7] \<and>
   txBuffer (m_platform
     (processIncomingByte 0xF7
        (processBytes [0xF0, 0x00, 0x20, 0x3C, 0x00, 0x00, 0x10, 0xF7] slave_4x))) =
     [0xF0, 0x00, 0x20, 0x3C, 0x00, 0x00, 0x11, 0x04, 0x00, 0x00, 0x00, 0xF7,
      0xF0, 0x00, 0x20, 0x3C, 0x00, 0x00, 0x11, 0x04, 0x00, 0x00, 0x00, 0xF7]"
  by code_simp

section \<open>The test speed of a negotiation\<close>

text \<open>
  C6, as amended. The claim has \<open>negotiate\<close> fail whenever the remote advertises no
  speed above the target; \<open>getNextHigherSpeed\<close> never looks at the remote's
  configuration. What holds, once the answer has arrived with the target supported and
  not certified: the test speed is the successor of the target in the enumeration
  (id + 1), whatever the remote advertises, and SpeedNegotiate(target + 1, target), the
  ten bytes \<open>F0 00 20 3C 00 00 12\<close>, id + 1, id, \<open>F7\<close>, is the next thing
  transmitted; at this step the negotiation fails only for the target 20x, the last of
  the enumeration, and then nothing more is transmitted.
\<close>

theorem negotiate_test_speed:
  assumes role: "m_role s \<noteq> SLAVE"
    and ans: "waitForSpeedAnswer timeoutMs (sendCommand buildSpeedReq s) = (Some remoteConfig, s2)"
    and has: "hasSpeed remoteConfig targetSpeed"
    and unc: "\<not> isCertified remoteConfig targetSpeed"
  shows "(targetSpeed = SPEED_20X \<longrightarrow> negotiateSpeed targetSpeed timeoutMs s = (False, s2)) \<and>
         (targetSpeed \<noteq> SPEED_20X \<longrightarrow>
            getNextHigherSpeed targetSpeed = targetSpeed + 1 \<and>
            prefix (txBuffer (m_platform s2) @
                    [0xF0, 0x00, 0x20, 0x3C, 0x00, 0x00, 0x12, targetSpeed + 1, targetSpeed, 0xF7])
                   (txBuffer (m_platform (snd (negotiateSpeed targetSpeed timeoutMs s)))))"
proof (intro conjI impI)
  assume top: "targetSpeed = SPEED_20X"
  then have "getNextHigherSpeed targetSpeed = targetSpeed"
    by (simp add: getNextHigherSpeed_def)
  with role ans has unc top show "negotiateSpeed targetSpeed timeoutMs s = (False, s2)"
    by (simp add: negotiateSpeed_def Let_def)
next
  assume "targetSpeed \<noteq> SPEED_20X"
  with hasSpeed_range [OF has] have rng: "targetSpeed \<in> {2, 3, 4, 5, 6, 7, 8, 9, 10}"
    by auto
  then have ne1: "targetSpeed \<noteq> SPEED_1X" by auto
  from getNextHigherSpeed_below_top [OF rng]
  have nx: "getNextHigherSpeed targetSpeed = targetSpeed + 1"
    and nq: "targetSpeed + 1 \<noteq> targetSpeed" by auto
  from nx show "getNextHigherSpeed targetSpeed = targetSpeed + 1" .
  define frame where
    "frame = [0xF0, 0x00, 0x20, 0x3C, 0x00, 0x00, 0x12, targetSpeed + 1, targetSpeed, 0xF7]"
  have fr: "buildSpeedNeg (targetSpeed + 1) targetSpeed = frame"
    by (simp add: frame_def builder_defs)
  let ?s3 = "sendCommand (buildSpeedNeg (targetSpeed + 1) targetSpeed) s2"
  let ?sent = "txBuffer (m_platform s2) @ frame"
  obtain r s4 where ack: "waitForAck timeoutMs ?s3 = (r, s4)"
    by (cases "waitForAck timeoutMs ?s3")
  have t4: "prefix ?sent (txBuffer (m_platform s4))"
    using tx_waitForAck [of ?s3 timeoutMs] ack by (simp add: fr)
  obtain r' s5 where tst: "performSpeedTest (targetSpeed + 1) targetSpeed s4 = (r', s5)"
    by (cases "performSpeedTest (targetSpeed + 1) targetSpeed s4")
  have "prefix (txBuffer (m_platform s4)) (txBuffer (m_platform s5))"
    using tx_performSpeedTest [of s4 "targetSpeed + 1" targetSpeed] tst by simp
  with t4 have t5: "prefix ?sent (txBuffer (m_platform s5))"
    by (rule prefix_order.trans)
  have "negotiateSpeed targetSpeed timeoutMs s =
          (if r then (if r' then (True, setSpeed targetSpeed s5) else (False, s5))
           else (False, s4))"
    using role ans has unc ne1 nx nq ack tst
    by (simp add: negotiateSpeed_def Let_def split: bool.split)
  with t4 t5
  have "prefix ?sent (txBuffer (m_platform (snd (negotiateSpeed targetSpeed timeoutMs s))))"
    by simp
  then show "prefix (txBuffer (m_platform s2) @
                    [0xF0, 0x00, 0x20, 0x3C, 0x00, 0x00, 0x12, targetSpeed + 1, targetSpeed, 0xF7])
                   (txBuffer (m_platform (snd (negotiateSpeed targetSpeed timeoutMs s))))"
    unfolding frame_def .
qed

theorem negotiate_test_speed_witness:
  "m_role (master_with_peer remote_only_4x) \<noteq> SLAVE \<and>
   fst (waitForSpeedAnswer 30 (sendCommand buildSpeedReq (master_with_peer remote_only_4x))) =
     Some remote_only_4x \<and>
   hasSpeed remote_only_4x SPEED_4X \<and> \<not> isCertified remote_only_4x SPEED_4X \<and>
   getNextHigherSpeed SPEED_4X = SPEED_5X \<and>
   prefix
     (txBuffer (m_platform (snd (waitForSpeedAnswer 30
        (sendCommand buildSpeedReq (master_with_peer remote_only_4x))))) @
      [0xF0, 0x00, 0x20, 0x3C, 0x00, 0x00, 0x12, 0x05, 0x04, 0xF7])
     (txBuffer (m_platform (snd (negotiateSpeed SPEED_4X 30
        (master_with_peer remote_only_4x))))) \<and>
   fst (waitForSpeedAnswer 30 (sendCommand buildSpeedReq (master_with_peer remote_only_20x))) =
     Some remote_only_20x \<and>
   hasSpeed remote_only_20x SPEED_20X \<and> \<not> isCertified remote_only_20x SPEED_20X \<and>
   negotiateSpeed SPEED_20X 30 (master_with_peer remote_only_20x) =
     (False, snd (waitForSpeedAnswer 30
        (sendCommand buildSpeedReq (master_with_peer remote_only_20x))))"
proof -
  let ?m4 = "master_with_peer remote_only_4x"
  let ?m20 = "master_with_peer remote_only_20x"
  let ?a4 = "waitForSpeedAnswer 30 (sendCommand buildSpeedReq ?m4)"
  let ?a20 = "waitForSpeedAnswer 30 (sendCommand buildSpeedReq ?m20)"
  have r4: "m_role ?m4 \<noteq> SLAVE" by code_simp
  have r20: "m_role ?m20 \<noteq> SLAVE" by code_simp
  have f4: "fst ?a4 = Some remote_only_4x" by code_simp
  have f20: "fst ?a20 = Some remote_only_20x" by code_simp
  have e4: "?a4 = (Some remote_only_4x, snd ?a4)"
    using f4 by (simp add: prod_eq_iff)
  have e20: "?a20 = (Some remote_only_20x, snd ?a20)"
    using f20 by (simp add: prod_eq_iff)
  have h4: "hasSpeed remote_only_4x SPEED_4X" by code_simp
  have u4: "\<not> isCertified remote_only_4x SPEED_4X" by code_simp
  have h20: "hasSpeed remote_only_20x SPEED_20X" by code_simp
  have u20: "\<not> isCertified remote_only_20x SPEED_20X" by code_simp
  from negotiate_test_speed [OF r4 e4 h4 u4] negotiate_test_speed [OF r20 e20 h20 u20]
    r4 f4 h4 u4 f20 h20 u20
  show ?thesis by simp
qed

text \<open>
  The claim itself fails on a remote that advertises 4x, uncertified, and no other
  speed: no higher supported speed exists, yet the master sends SpeedRequest and then
  SpeedNegotiate(5x, 4x), \<open>F0 00 20 3C 00 00 12 05 04 F7\<close>, and returns success, at
  4x and 125000 baud.
\<close>

theorem negotiate_succeeds_without_higher_speed:
  "hasSpeed remote_only_4x SPEED_4X \<and>
   \<not> hasSpeed remote_only_4x SPEED_5X \<and> \<not> hasSpeed remote_only_4x SPEED_6_6X \<and>
   \<not> hasSpeed remote_only_4x SPEED_8X \<and> \<not> hasSpeed remote_only_4x SPEED_10X \<and>
   \<not> hasSpeed remote_only_4x SPEED_13_3X \<and> \<not> hasSpeed remote_only_4x SPEED_16X \<and>
   \<not> hasSpeed remote_only_4x SPEED_20X \<and>
   fst (negotiateSpeed SPEED_4X 30 (master_with_peer remote_only_4x)) = True \<and>
   take 18 (txBuffer (m_platform
     (snd (negotiateSpeed SPEED_4X 30 (master_with_peer remote_only_4x))))) =
     [0xF0, 0x00, 0x20, 0x3C, 0x00, 0x00, 0x10, 0xF7,
      0xF0, 0x00, 0x20, 0x3C, 0x00, 0x00, 0x12, 0x05, 0x04, 0xF7] \<and>
   m_currentSpeed (snd (negotiateSpeed SPEED_4X 30 (master_with_peer remote_only_4x))) =
     SPEED_4X \<and>
   currentBaudRate (m_platform
     (snd (negotiateSpeed SPEED_4X 30 (master_with_peer remote_only_4x)))) = 125000"
  by code_simp

section \<open>The watchdog\<close>

text \<open>
  C7. The watchdog step of a tick, \<open>checkTimeouts\<close>, with the speed as it is when the
  step runs. Above 1x, a gap \<open>now - lastMessageTime_\<close> of more than 300 ms commits the
  engine to 1x: the speed is 1x, the baud rate 31250, a bound \<open>onSpeedChanged\<close> is
  called with 1x, and nothing is transmitted. Above 1x, a gap of at most 300 ms leaves
  the speed, the baud rate and the callback alone. At 1x the step changes nothing at
  all, so it neither changes the speed nor transmits \<open>FE\<close>. A tick with nothing to
  receive is the watchdog step alone.
\<close>

theorem watchdog:
  "(m_currentSpeed s \<noteq> SPEED_1X \<and> getMillis (m_platform s) - m_lastMessageTime s > 300 \<longrightarrow>
      m_currentSpeed (checkTimeouts s) = SPEED_1X \<and>
      currentBaudRate (m_platform (checkTimeouts s)) = 31250 \<and>
      speedChangedCalls (checkTimeouts s) =
        (if onSpeedChanged s then speedChangedCalls s @ [SPEED_1X] else speedChangedCalls s) \<and>
      txBuffer (m_platform (checkTimeouts s)) = txBuffer (m_platform s)) \<and>
   (m_currentSpeed s \<noteq> SPEED_1X \<and> getMillis (m_platform s) - m_lastMessageTime s \<le> 300 \<longrightarrow>
      m_currentSpeed (checkTimeouts s) = m_currentSpeed s \<and>
      currentBaudRate (m_platform (checkTimeouts s)) = currentBaudRate (m_platform s) \<and>
      speedChangedCalls (checkTimeouts s) = speedChangedCalls s) \<and>
   (m_currentSpeed s = SPEED_1X \<longrightarrow> checkTimeouts s = s) \<and>
   (rxBuffer (m_platform s) = [] \<longrightarrow> handleIncomingData s = checkTimeouts s)"
proof (intro conjI impI)
  assume a: "m_currentSpeed s \<noteq> SPEED_1X \<and> getMillis (m_platform s) - m_lastMessageTime s > 300"
  then have e: "checkTimeouts s = setSpeed SPEED_1X s"
    by (simp add: checkTimeouts_def Let_def setSpeed_def)
  show "m_currentSpeed (checkTimeouts s) = SPEED_1X"
    by (simp add: e setSpeed_def Let_def)
  show "currentBaudRate (m_platform (checkTimeouts s)) = 31250"
    by (simp add: e setSpeed_def Let_def setBaudRate_def getBaudRate_def)
  show "speedChangedCalls (checkTimeouts s) =
        (if onSpeedChanged s then speedChangedCalls s @ [SPEED_1X] else speedChangedCalls s)"
    by (simp add: e setSpeed_def Let_def)
  show "txBuffer (m_platform (checkTimeouts s)) = txBuffer (m_platform s)"
    by (simp add: e setSpeed_def Let_def setBaudRate_def)
next
  assume a: "m_currentSpeed s \<noteq> SPEED_1X \<and> getMillis (m_platform s) - m_lastMessageTime s \<le> 300"
  then have n: "\<not> getMillis (m_platform s) - m_lastMessageTime s > 300"
    by (simp add: not_less)
  have e: "checkTimeouts s =
      (if getMillis (m_platform s) - m_lastActiveSenseTime s > 250 then sendActiveSense s else s)"
    using a n by (simp add: checkTimeouts_def Let_def)
  show "m_currentSpeed (checkTimeouts s) = m_currentSpeed s"
    by (simp add: e sendActiveSense_def Let_def)
  show "currentBaudRate (m_platform (checkTimeouts s)) = currentBaudRate (m_platform s)"
    by (simp add: e sendActiveSense_def Let_def sendMidiData_def)
  show "speedChangedCalls (checkTimeouts s) = speedChangedCalls s"
    by (simp add: e sendActiveSense_def Let_def)
next
  assume "m_currentSpeed s = SPEED_1X"
  then show "checkTimeouts s = s"
    by (simp add: checkTimeouts_def Let_def)
next
  assume "rxBuffer (m_platform s) = []"
  then show "handleIncomingData s = checkTimeouts s"
    by (simp add: handleIncomingData_def receiveMidiData_def)
qed


theorem watchdog_witness:
  "m_currentSpeed (advanceClock 350 slave_pushed_4x) \<noteq> SPEED_1X \<and>
   getMillis (m_platform (advanceClock 350 slave_pushed_4x)) -
     m_lastMessageTime (advanceClock 350 slave_pushed_4x) > 300 \<and>
   m_currentSpeed (checkTimeouts (advanceClock 350 slave_pushed_4x)) = SPEED_1X \<and>
   currentBaudRate (m_platform (checkTimeouts (advanceClock 350 slave_pushed_4x))) = 31250 \<and>
   speedChangedCalls (checkTimeouts (advanceClock 350 slave_pushed_4x)) =
     [SPEED_4X, SPEED_1X] \<and>
   m_currentSpeed (advanceClock 250 slave_pushed_4x) \<noteq> SPEED_1X \<and>
   getMillis (m_platform (advanceClock 250 slave_pushed_4x)) -
     m_lastMessageTime (advanceClock 250 slave_pushed_4x) \<le> 300 \<and>
   m_currentSpeed (checkTimeouts (advanceClock 250 slave_pushed_4x)) = SPEED_4X \<and>
   m_currentSpeed (advanceClock 350 slave_4x) = SPEED_1X \<and>
   checkTimeouts (advanceClock 350 slave_4x) = advanceClock 350 slave_4x \<and>
   rxBuffer (m_platform (advanceClock 350 slave_pushed_4x)) = [] \<and>
   handleIncomingData (advanceClock 350 slave_pushed_4x) =
     checkTimeouts (advanceClock 350 slave_pushed_4x)"
proof -
  let ?late = "advanceClock 350 slave_pushed_4x"
  let ?early = "advanceClock 250 slave_pushed_4x"
  let ?idle = "advanceClock 350 slave_4x"
  have l1: "m_currentSpeed ?late \<noteq> SPEED_1X" by code_simp
  have l2: "getMillis (m_platform ?late) - m_lastMessageTime ?late > 300" by code_simp
  have l3: "onSpeedChanged ?late" by code_simp
  have l4: "speedChangedCalls ?late = [SPEED_4X]" by code_simp
  have l5: "rxBuffer (m_platform ?late) = []" by code_simp
  have e1: "m_currentSpeed ?early = SPEED_4X" by code_simp
  have e2: "getMillis (m_platform ?early) - m_lastMessageTime ?early \<le> 300" by code_simp
  have i1: "m_currentSpeed ?idle = SPEED_1X" by code_simp
  from watchdog [of ?late] watchdog [of ?early] watchdog [of ?idle]
    l1 l2 l3 l4 l5 e1 e2 i1
  show ?thesis by simp
qed

section \<open>The slave's test sequence\<close>


section \<open>The SpeedAnswer round trip\<close>

text \<open>
  C9, as amended. The claim is for any four bytes; a byte \<open>F0\<close> restarts the frame in
  \<open>processIncomingByte\<close> and in \<open>getParsedMessages\<close>. What holds: for a
  configuration none of whose four bytes is \<open>F0\<close> (every configuration built by
  \<open>addSpeed\<close> is one: its bytes are below \<open>80\<close>), the frame built by
  \<open>buildSpeedAnswer\<close>, put in the receive buffer directly or byte by byte through the
  receive path, is parsed by \<open>parseSpeedAnswer\<close> into the same four bytes.
\<close>

theorem speedAnswer_roundtrip:
  assumes "mask1 c \<noteq> SYSEX_START" and "mask2 c \<noteq> SYSEX_START"
    and "cert1 c \<noteq> SYSEX_START" and "cert2 c \<noteq> SYSEX_START"
  shows "parseSpeedAnswer (s\<lparr>m_incomingBuffer := buildSpeedAnswer c\<rparr>) = Some c \<and>
         parseSpeedAnswer (processBytes (buildSpeedAnswer c) s) = Some c"
proof -
  obtain m1 m2 c1 c2 where c: "c = \<lparr>mask1 = m1, mask2 = m2, cert1 = c1, cert2 = c2\<rparr>"
    by (cases c) auto
  from assms c have ne: "m1 \<noteq> SYSEX_START" "m2 \<noteq> SYSEX_START" "c1 \<noteq> SYSEX_START"
    "c2 \<noteq> SYSEX_START" by simp_all
  have fr: "buildSpeedAnswer c =
      SYSEX_START # [0x00, 0x20, 0x3C, 0x00, 0x00, SPEED_ANSWER, m1, m2, c1, c2, SYSEX_END]"
    by (simp add: c builder_defs)
  have "SYSEX_START \<notin> set [0x00, 0x20, 0x3C, 0x00, 0x00, SPEED_ANSWER, m1, m2, c1, c2, SYSEX_END]"
    using ne by auto
  then have buf: "m_incomingBuffer (processBytes (buildSpeedAnswer c) s) = buildSpeedAnswer c"
    unfolding fr by (rule incomingBuffer_frame)
  have "parseSpeedAnswer (s\<lparr>m_incomingBuffer := buildSpeedAnswer c\<rparr>) = Some c"
    unfolding c by (rule parseSpeedAnswer_frame [OF ne]) simp
  moreover have "parseSpeedAnswer (processBytes (buildSpeedAnswer c) s) = Some c"
    using buf unfolding c by (rule parseSpeedAnswer_frame [OF ne])
  ultimately show ?thesis by simp
qed

theorem speedAnswer_roundtrip_witness:
  "mask1 remote_only_4x \<noteq> SYSEX_START \<and> mask2 remote_only_4x \<noteq> SYSEX_START \<and>
   cert1 remote_only_4x \<noteq> SYSEX_START \<and> cert2 remote_only_4x \<noteq> SYSEX_START \<and>
   parseSpeedAnswer
     ((TurboMIDI_new Platform_init MASTER)\<lparr>m_incomingBuffer := buildSpeedAnswer remote_only_4x\<rparr>) =
     Some remote_only_4x \<and>
   parseSpeedAnswer
     (processBytes (buildSpeedAnswer remote_only_4x) (TurboMIDI_new Platform_init MASTER)) =
     Some remote_only_4x"
proof -
  have n: "mask1 remote_only_4x \<noteq> SYSEX_START" "mask2 remote_only_4x \<noteq> SYSEX_START"
    "cert1 remote_only_4x \<noteq> SYSEX_START" "cert2 remote_only_4x \<noteq> SYSEX_START"
    by (simp_all add: remote_only_4x_def)
  from speedAnswer_roundtrip [OF n, of "TurboMIDI_new Platform_init MASTER"] n
  show ?thesis by simp
qed

text \<open>
  The claim itself fails on the four bytes \<open>F0 00 00 00\<close>: the frame built from them
  is not parsed as a SpeedAnswer, neither from the buffer nor through the receive path.
\<close>

theorem speedAnswer_roundtrip_fails_on_F0:
  "parseSpeedAnswer
     ((TurboMIDI_new Platform_init MASTER)
        \<lparr>m_incomingBuffer :=
           buildSpeedAnswer \<lparr>mask1 = 0xF0, mask2 = 0x00, cert1 = 0x00, cert2 = 0x00\<rparr>\<rparr>) = None \<and>
   parseSpeedAnswer
     (processBytes
        (buildSpeedAnswer \<lparr>mask1 = 0xF0, mask2 = 0x00, cert1 = 0x00, cert2 = 0x00\<rparr>)
        (TurboMIDI_new Platform_init MASTER)) = None"
  by code_simp

section \<open>The master entry points on a slave\<close>

text \<open>
  C10. On an engine whose role is \<open>SLAVE\<close>, \<open>negotiateSpeed\<close> returns false at once
  and \<open>pushSpeed\<close> returns at once: the whole state, the platform's transmit log
  included, is what it was.
\<close>

theorem slave_negotiate_push_noop:
  "m_role s = SLAVE \<Longrightarrow>
   negotiateSpeed targetSpeed timeoutMs s = (False, s) \<and> pushSpeed speed s = s"
  by (simp add: negotiateSpeed_def pushSpeed_def)

theorem slave_negotiate_push_noop_witness:
  "m_role (TurboMIDI_new Platform_init SLAVE) = SLAVE \<and>
   negotiateSpeed SPEED_4X 30 (TurboMIDI_new Platform_init SLAVE) =
     (False, TurboMIDI_new Platform_init SLAVE) \<and>
   pushSpeed SPEED_4X (TurboMIDI_new Platform_init SLAVE) = TurboMIDI_new Platform_init SLAVE"
proof -
  have r: "m_role (TurboMIDI_new Platform_init SLAVE) = SLAVE"
    by (simp add: TurboMIDI_new_def)
  from slave_negotiate_push_noop [OF r, of SPEED_4X 30 SPEED_4X] r show ?thesis
    by simp
qed

end
